theory Spec2Isabelle
  imports Complex_Main
begin

section \<open>JavaScript numbers and values\<close>

text \<open>
  A JavaScript number is modelled as a real number or one of the three special values of
  IEEE arithmetic. Arithmetic on finite values is exact: rounding and overflow of the
  64-bit format are not part of the model, and negative zero is identified with zero.
  Every divisor of the source that can be zero (\<^verbatim>\<open>n - 1\<close>,
  \<^verbatim>\<open>N + (1 - band)\<close>) is a positive zero there, so a finite value divided
  by zero takes the sign of the dividend.
\<close>

datatype jsnum = Fin real | PInf | NInf | NaN

fun js_neg :: "jsnum \<Rightarrow> jsnum" where
  "js_neg (Fin x) = Fin (- x)"
| "js_neg PInf = NInf"
| "js_neg NInf = PInf"
| "js_neg NaN = NaN"

fun js_add :: "jsnum \<Rightarrow> jsnum \<Rightarrow> jsnum" where
  "js_add (Fin x) (Fin y) = Fin (x + y)"
| "js_add (Fin x) PInf = PInf"
| "js_add (Fin x) NInf = NInf"
| "js_add PInf (Fin y) = PInf"
| "js_add PInf PInf = PInf"
| "js_add NInf (Fin y) = NInf"
| "js_add NInf NInf = NInf"
| "js_add _ _ = NaN"

definition js_sub :: "jsnum \<Rightarrow> jsnum \<Rightarrow> jsnum" where
  "js_sub a b = js_add a (js_neg b)"

fun js_mul :: "jsnum \<Rightarrow> jsnum \<Rightarrow> jsnum" where
  "js_mul (Fin x) (Fin y) = Fin (x * y)"
| "js_mul (Fin x) PInf = (if x = 0 then NaN else if 0 < x then PInf else NInf)"
| "js_mul (Fin x) NInf = (if x = 0 then NaN else if 0 < x then NInf else PInf)"
| "js_mul PInf (Fin y) = (if y = 0 then NaN else if 0 < y then PInf else NInf)"
| "js_mul NInf (Fin y) = (if y = 0 then NaN else if 0 < y then NInf else PInf)"
| "js_mul PInf PInf = PInf"
| "js_mul PInf NInf = NInf"
| "js_mul NInf PInf = NInf"
| "js_mul NInf NInf = PInf"
| "js_mul _ _ = NaN"

fun js_div :: "jsnum \<Rightarrow> jsnum \<Rightarrow> jsnum" where
  "js_div (Fin x) (Fin y) =
     (if y = 0 then (if x = 0 then NaN else if 0 < x then PInf else NInf)
      else Fin (x / y))"
| "js_div (Fin x) PInf = Fin 0"
| "js_div (Fin x) NInf = Fin 0"
| "js_div PInf (Fin y) = (if 0 \<le> y then PInf else NInf)"
| "js_div NInf (Fin y) = (if 0 \<le> y then NInf else PInf)"
| "js_div _ _ = NaN"

text \<open>\<^verbatim>\<open>Math.sqrt\<close> and \<^verbatim>\<open>Math.round\<close> (which rounds a half upwards).\<close>

fun js_sqrt :: "jsnum \<Rightarrow> jsnum" where
  "js_sqrt (Fin x) = (if x < 0 then NaN else Fin (sqrt x))"
| "js_sqrt PInf = PInf"
| "js_sqrt _ = NaN"

fun js_round :: "jsnum \<Rightarrow> jsnum" where
  "js_round (Fin x) = Fin (of_int \<lfloor>x + 1 / 2\<rfloor>)"
| "js_round v = v"

text \<open>The comparisons \<^verbatim>\<open><\<close>, \<^verbatim>\<open>>\<close>, \<^verbatim>\<open>>=\<close> and
  \<^verbatim>\<open>===\<close> on numbers: each is false as soon as an operand is NaN.\<close>

fun js_lt :: "jsnum \<Rightarrow> jsnum \<Rightarrow> bool" where
  "js_lt (Fin x) (Fin y) = (x < y)"
| "js_lt (Fin x) PInf = True"
| "js_lt NInf (Fin y) = True"
| "js_lt NInf PInf = True"
| "js_lt _ _ = False"

definition js_gt :: "jsnum \<Rightarrow> jsnum \<Rightarrow> bool" where
  "js_gt a b = js_lt b a"

definition js_ge :: "jsnum \<Rightarrow> jsnum \<Rightarrow> bool" where
  "js_ge a b = (a \<noteq> NaN \<and> b \<noteq> NaN \<and> \<not> js_lt a b)"

definition js_seq :: "jsnum \<Rightarrow> jsnum \<Rightarrow> bool" where
  "js_seq a b = (a \<noteq> NaN \<and> a = b)"

text \<open>
  A property value or an optional argument: a number, or one of the two unset values.
  \<^verbatim>\<open>v == null\<close> holds of both; arithmetic converts \<^verbatim>\<open>undefined\<close> to NaN
  and \<^verbatim>\<open>null\<close> to 0; zero, NaN and the unset values are falsy.
\<close>

datatype jsval = Undefined | Null | Num jsnum

fun ToNumber :: "jsval \<Rightarrow> jsnum" where
  "ToNumber Undefined = NaN"
| "ToNumber Null = Fin 0"
| "ToNumber (Num n) = n"

fun ToBoolean :: "jsval \<Rightarrow> bool" where
  "ToBoolean (Num (Fin x)) = (x \<noteq> 0)"
| "ToBoolean (Num PInf) = True"
| "ToBoolean (Num NInf) = True"
| "ToBoolean _ = False"

fun eq_null :: "jsval \<Rightarrow> bool" where
  "eq_null (Num n) = False"
| "eq_null _ = True"

definition js_or :: "jsval \<Rightarrow> jsval \<Rightarrow> jsval" where
  "js_or v w = (if ToBoolean v then v else w)"

definition val_seq :: "jsval \<Rightarrow> jsnum \<Rightarrow> bool" where
  "val_seq v n = (case v of Num m \<Rightarrow> js_seq m n | _ \<Rightarrow> False)"

section \<open>The dot mark\<close>

text \<open>
  A scene instance holds the resolved properties of one dot. Only the properties that
  \<^verbatim>\<open>buildImplied\<close>, the anchors and \<^verbatim>\<open>getShapeCore\<close> read or write
  are fields; the others live in the record's extension. The fields \<open>u_width\<close> and
  \<open>u_height\<close> are the source's \<^verbatim>\<open>_width\<close> and \<^verbatim>\<open>_height\<close>, and
  \<open>top'\<close> is its \<^verbatim>\<open>top\<close>.
\<close>

record scene =
  shape :: string
  shapeRadius :: jsval
  shapeSize :: jsval
  aspectRatio :: jsval
  left :: jsval
  right :: jsval
  top' :: jsval
  bottom :: jsval
  u_width :: jsval
  u_height :: jsval

text \<open>
  \<^verbatim>\<open>pv.Dot.prototype.buildImplied\<close>. The hook of the base mark, which the method
  calls last, is not part of these sources and is the parameter \<open>Mark_buildImplied\<close>.
\<close>

definition buildImplied ::
  "('a scene_scheme \<Rightarrow> 'a scene_scheme) \<Rightarrow> 'a scene_scheme \<Rightarrow> 'a scene_scheme" where
  "buildImplied Mark_buildImplied s =
     (let r = shapeRadius s;
          z = shapeSize s;
          a = js_or (aspectRatio s) (Num (Fin 1));
          s1 = (if eq_null r then
                  (if eq_null z then s\<lparr>shapeSize := Num (Fin 20.25), shapeRadius := Num (Fin 4.5)\<rparr>
                   else s\<lparr>shapeRadius := Num (js_sqrt (ToNumber z))\<rparr>)
                else if eq_null z then s\<lparr>shapeSize := Num (js_mul (ToNumber r) (ToNumber r))\<rparr>
                else s);
          r1 = ToNumber (shapeRadius s1);
          h = (if val_seq a (Fin 1) \<or> js_lt (ToNumber a) (Fin 0) then js_mul (Fin 2) r1
               else js_div (js_mul (Fin 2) r1) (js_sqrt (ToNumber a)));
          w = (if val_seq a (Fin 1) \<or> js_lt (ToNumber a) (Fin 0) then js_mul (Fin 2) r1
               else js_mul (ToNumber a) h)
      in Mark_buildImplied (s1\<lparr>u_height := Num h, u_width := Num w\<rparr>))"

text \<open>What the properties below need of the base hook: it leaves the shape's own fields
  alone. The hook that does nothing at all is the one used on concrete inputs.\<close>

definition keeps_shape :: "('a scene_scheme \<Rightarrow> 'a scene_scheme) \<Rightarrow> bool" where
  "keeps_shape f = (\<forall>s. shapeRadius (f s) = shapeRadius s \<and> shapeSize (f s) = shapeSize s
      \<and> u_width (f s) = u_width s \<and> u_height (f s) = u_height s)"

definition Mark_noop :: "'a scene_scheme \<Rightarrow> 'a scene_scheme" where
  "Mark_noop s = s"

text \<open>
  \<^verbatim>\<open>pv.Dot.prototype.anchor\<close> overrides six property functions of the anchor. Each
  reads the anchor's name and the host's instance \<^verbatim>\<open>this.scene.target[this.index]\<close>,
  which is the argument \<open>s\<close> here. A \<^verbatim>\<open>switch\<close> is the chain of its cases
  in the source's order.
\<close>

definition anchor_left :: "string \<Rightarrow> 'a scene_scheme \<Rightarrow> jsval" where
  "anchor_left name s =
     (if name = ''bottom'' \<or> name = ''top'' \<or> name = ''center'' then left s
      else if name = ''left'' then Null
      else Num (js_add (ToNumber (left s)) (js_div (ToNumber (u_width s)) (Fin 2))))"

definition anchor_right :: "string \<Rightarrow> 'a scene_scheme \<Rightarrow> jsval" where
  "anchor_right name s =
     (if name = ''left'' then Num (js_add (ToNumber (right s)) (js_div (ToNumber (u_width s)) (Fin 2)))
      else Null)"

definition anchor_top :: "string \<Rightarrow> 'a scene_scheme \<Rightarrow> jsval" where
  "anchor_top name s =
     (if name = ''left'' \<or> name = ''right'' \<or> name = ''center'' then top' s
      else if name = ''top'' then Null
      else Num (js_add (ToNumber (top' s)) (js_div (ToNumber (u_height s)) (Fin 2))))"

definition anchor_bottom :: "string \<Rightarrow> 'a scene_scheme \<Rightarrow> jsval" where
  "anchor_bottom name s =
     (if name = ''top'' then Num (js_add (ToNumber (bottom s)) (js_div (ToNumber (u_height s)) (Fin 2)))
      else Null)"

definition anchor_textAlign :: "string \<Rightarrow> string" where
  "anchor_textAlign name =
     (if name = ''left'' then ''right''
      else if name = ''bottom'' \<or> name = ''top'' \<or> name = ''center'' then ''center''
      else ''left'')"

definition anchor_textBaseline :: "string \<Rightarrow> string" where
  "anchor_textBaseline name =
     (if name = ''right'' \<or> name = ''left'' \<or> name = ''center'' then ''middle''
      else if name = ''bottom'' then ''top''
      else ''bottom'')"

text \<open>
  \<^verbatim>\<open>pv.Dot.prototype.getShapeCore\<close>, which builds a primitive from the instance
  \<^verbatim>\<open>scenes[index]\<close>. The \<^verbatim>\<open>diamond\<close> case scales both extents and falls
  through to the rectangle.

  Modelled from the spec: the primitives \<^verbatim>\<open>pv.Shape.Rect\<close>, an axis-aligned
  rectangle built from (x, y, dx, dy), and \<^verbatim>\<open>pv.Shape.Circle\<close>, built from
  (x, y, radius); their constructors are not part of these sources, so a primitive is
  the constructor's name with the arguments it was given.
\<close>

datatype shape_core = Rect jsval jsval jsval jsval | Circle jsval jsval jsval

definition SQRT2 :: jsnum where
  "SQRT2 = Fin (sqrt 2)"

definition getShapeCore :: "'a scene_scheme \<Rightarrow> shape_core" where
  "getShapeCore s =
     (let h = u_width s;
          w = u_height s;
          cx = left s;
          cy = top' s;
          rect = (\<lambda>w h. Rect (Num (js_sub (ToNumber cx) (js_div (ToNumber w) (Fin 2))))
                             (Num (js_sub (ToNumber cy) (js_div (ToNumber h) (Fin 2)))) w h)
      in if shape s = ''diamond'' then
           rect (Num (js_mul (ToNumber w) SQRT2)) (Num (js_mul (ToNumber h) SQRT2))
         else if shape s = ''square'' \<or> shape s = ''cross'' then rect w h
         else Circle cx cy (shapeRadius s))"


text \<open>The centre of a primitive and, for a rectangle, its width and height.\<close>

fun core_center :: "shape_core \<Rightarrow> jsnum \<times> jsnum" where
  "core_center (Rect x y dx dy) =
     (js_add (ToNumber x) (js_div (ToNumber dx) (Fin 2)), js_add (ToNumber y) (js_div (ToNumber dy) (Fin 2)))"
| "core_center (Circle x y r) = (ToNumber x, ToNumber y)"

fun core_extent :: "shape_core \<Rightarrow> (jsval \<times> jsval) option" where
  "core_extent (Rect x y dx dy) = Some (dx, dy)"
| "core_extent (Circle x y r) = None"

text \<open>Scene instances used as concrete inputs.\<close>

definition dot_unset :: scene where
  "dot_unset = \<lparr>shape = ''circle'', shapeRadius = Undefined, shapeSize = Undefined,
           aspectRatio = Num (Fin 1), left = Num (Fin 10), right = Num (Fin 290),
           top' = Num (Fin 20), bottom = Num (Fin 180),
           u_width = Undefined, u_height = Undefined\<rparr>"

definition host :: scene where
  "host = \<lparr>shape = ''square'', shapeRadius = Num (Fin 4.5), shapeSize = Num (Fin 20.25),
           aspectRatio = Num (Fin 1), left = Num (Fin 10), right = Num (Fin 290),
           top' = Num (Fin 20), bottom = Num (Fin 180),
           u_width = Num (Fin 8), u_height = Num (Fin 6)\<rparr>"

section \<open>The ordinal scale\<close>

subsection \<open>Objects used as dictionaries\<close>

text \<open>
  The source keeps the index of the domain and the set of values already seen in plain
  objects created by \<^verbatim>\<open>{}\<close>. A value used as a property name is first converted
  to a string, the function \<open>key\<close> that the operations below take as a parameter. A
  plain object inherits the properties of \<^verbatim>\<open>Object.prototype\<close>, and the operator
  \<^verbatim>\<open>in\<close> sees them as well as the object's own ones. The inherited names are the
  seven of the language standard and the five legacy accessors that every browser adds.
\<close>

definition Object_prototype_keys :: "string list" where
  "Object_prototype_keys =
     [''constructor'', ''toString'', ''toLocaleString'', ''valueOf'', ''hasOwnProperty'',
      ''isPrototypeOf'', ''propertyIsEnumerable'', ''__proto__'', ''__defineGetter__'',
      ''__defineSetter__'', ''__lookupGetter__'', ''__lookupSetter__'']"

definition js_in :: "string \<Rightarrow> (string \<rightharpoonup> 'x) \<Rightarrow> bool" where
  "js_in k obj = (k \<in> dom obj \<or> k \<in> set Object_prototype_keys)"

text \<open>A string is its own property name. Primitive values of other types have the
  conversion below.\<close>

definition StringKey :: "string \<Rightarrow> string" where
  "StringKey s = s"

datatype prim = PString string | PBoolean bool | PNull | PUndefined

fun ToPropertyKey :: "prim \<Rightarrow> string" where
  "ToPropertyKey (PString s) = s"
| "ToPropertyKey (PBoolean b) = (if b then ''true'' else ''false'')"
| "ToPropertyKey PNull = ''null''"
| "ToPropertyKey PUndefined = ''undefined''"

subsection \<open>State\<close>

text \<open>
  The range is an array that also carries the annotations \<^verbatim>\<open>min\<close>, \<^verbatim>\<open>max\<close>,
  \<^verbatim>\<open>step\<close>, \<^verbatim>\<open>band\<close> and \<^verbatim>\<open>margin\<close>; a new array has none of them.
  The state of a scale is the closure's variables \<^verbatim>\<open>d\<close>, \<^verbatim>\<open>i\<close> (its own
  properties) and \<^verbatim>\<open>r\<close>; the variable \<^verbatim>\<open>band\<close> of the closure is never read.
\<close>

record 'r range =
  elems :: "'r list"
  r_min :: jsval
  r_max :: jsval
  r_step :: jsval
  r_band :: jsval
  r_margin :: jsval

definition new_range :: "'r list \<Rightarrow> 'r range" where
  "new_range xs = \<lparr>elems = xs, r_min = Undefined, r_max = Undefined, r_step = Undefined,
      r_band = Undefined, r_margin = Undefined\<rparr>"

record ('v, 'r) ordinal =
  domain_d :: "'v list"
  index_i :: "string \<rightharpoonup> nat"
  range_r :: "'r range"

subsection \<open>Invocation and the domain\<close>

text \<open>
  \<^verbatim>\<open>scale(x)\<close>. When \<^verbatim>\<open>i[x]\<close> is an inherited property it is not a number,
  the index is NaN and the array has no such element; the same holds of every index when
  the range is empty. The result \<open>None\<close> is \<^verbatim>\<open>undefined\<close>.
\<close>

definition scale :: "('v \<Rightarrow> string) \<Rightarrow> ('v, 'r) ordinal \<Rightarrow> 'v \<Rightarrow> ('v, 'r) ordinal \<times> 'r option" where
  "scale key st x =
     (let st1 = (if \<not> js_in (key x) (index_i st)
                 then st\<lparr>index_i := (index_i st)(key x \<mapsto> length (domain_d st)),
                         domain_d := domain_d st @ [x]\<rparr>
                 else st);
          r = elems (range_r st1)
      in (st1, case index_i st1 (key x) of
                 None \<Rightarrow> None
               | Some n \<Rightarrow> if length r = 0 then None else Some (r ! (n mod length r))))"

text \<open>
  The arguments of \<^verbatim>\<open>scale.domain\<close>: a series of values (none at all reads the
  domain), an array, or an array with an accessor.
\<close>

datatype ('u, 'v) domain_args = Values "'v list" | Array "'v list" | ArrayBy "'u list" "'u \<Rightarrow> 'v"

text \<open>Modelled from the spec: \<^verbatim>\<open>pv.map\<close>, array mapping via an accessor, and
  \<^verbatim>\<open>pv.numerate\<close>, which assigns sequential indices to the values of an array.\<close>

definition pv_map :: "'u list \<Rightarrow> ('u \<Rightarrow> 'v) \<Rightarrow> 'v list" where
  "pv_map array f = map f array"

definition pv_numerate :: "('v \<Rightarrow> string) \<Rightarrow> 'v list \<Rightarrow> (string \<rightharpoonup> nat)" where
  "pv_numerate key keys = map_of (zip (map key keys) [0..<length keys])"

text \<open>The loop of \<^verbatim>\<open>scale.domain\<close> that filters the values to the unique ones.\<close>

fun unique_loop :: "('v \<Rightarrow> string) \<Rightarrow> (string \<rightharpoonup> bool) \<Rightarrow> 'v list \<Rightarrow> 'v list \<Rightarrow> 'v list" where
  "unique_loop key seen d [] = d"
| "unique_loop key seen d (o1 # array) =
     (if \<not> js_in (key o1) seen then unique_loop key (seen(key o1 \<mapsto> True)) (d @ [o1]) array
      else unique_loop key seen d array)"

definition scale_domain ::
  "('v \<Rightarrow> string) \<Rightarrow> ('v, 'r) ordinal \<Rightarrow> ('u, 'v) domain_args \<Rightarrow> ('v, 'r) ordinal" where
  "scale_domain key st args =
     (case args of
        Values [] \<Rightarrow> st
      | _ \<Rightarrow>
         (let array = (case args of Values vs \<Rightarrow> vs | Array vs \<Rightarrow> vs | ArrayBy us f \<Rightarrow> pv_map us f);
              d = unique_loop key Map.empty [] array
          in st\<lparr>domain_d := d, index_i := pv_numerate key d\<rparr>))"

text \<open>\<^verbatim>\<open>pv.Scale.ordinal(...)\<close>: the empty closure, then \<^verbatim>\<open>scale.domain\<close>
  applied to the constructor's arguments.\<close>

definition ordinal0 :: "('v, 'r) ordinal" where
  "ordinal0 = \<lparr>domain_d = [], index_i = Map.empty, range_r = new_range []\<rparr>"

definition pv_Scale_ordinal :: "('v \<Rightarrow> string) \<Rightarrow> ('u, 'v) domain_args \<Rightarrow> ('v, 'r) ordinal" where
  "pv_Scale_ordinal key args = scale_domain key ordinal0 args"

text \<open>A sequence of calls on one scale. A call that replaces the range (the range setter
  or a split) leaves the domain and the index alone.\<close>

datatype ('u, 'v, 'r) call = Domain "('u, 'v) domain_args" | Invoke 'v | SetRange "'r range"

fun call_step :: "('v \<Rightarrow> string) \<Rightarrow> ('v, 'r) ordinal \<Rightarrow> ('u, 'v, 'r) call \<Rightarrow> ('v, 'r) ordinal" where
  "call_step key st (Domain args) = scale_domain key st args"
| "call_step key st (Invoke x) = fst (scale key st x)"
| "call_step key st (SetRange r) = st\<lparr>range_r := r\<rparr>"

definition run_calls :: "('v \<Rightarrow> string) \<Rightarrow> ('v, 'r) ordinal \<Rightarrow> ('u, 'v, 'r) call list \<Rightarrow> ('v, 'r) ordinal" where
  "run_calls key st calls = foldl (call_step key) st calls"

text \<open>The order of first occurrence, as the specification words it: every value is kept
  where it is first seen, and its later occurrences are dropped.\<close>

function first_seen :: "('v \<Rightarrow> string) \<Rightarrow> 'v list \<Rightarrow> 'v list" where
  "first_seen key [] = []"
| "first_seen key (x # xs) = x # first_seen key (filter (\<lambda>y. key y \<noteq> key x) xs)"
  by pat_completeness auto
termination
  by (relation "measure (\<lambda>(key, xs). length xs)") (auto simp: less_Suc_eq_le)

subsection \<open>Splitting an interval\<close>

text \<open>
  Modelled from the spec: \<^verbatim>\<open>pv.range\<close>, numeric range generation, which is not
  part of these sources. It produces the evenly spaced sequence \<open>start + step * i\<close> for
  \<open>i = 0, 1, \<dots>\<close> as long as the value lies before the exclusive end \<open>stop\<close>: below
  it, or above it when the step is negative. Where that sequence never ends the call
  does not return an array, which is the result \<open>None\<close>. A comparison with NaN is
  false, so a sequence whose first value is NaN is empty.
\<close>

definition pv_range :: "jsnum \<Rightarrow> jsnum \<Rightarrow> jsnum \<Rightarrow> jsnum list option" where
  "pv_range start stop step =
     (let j = (\<lambda>i::nat. js_add start (js_mul step (Fin (real i))));
          before = (\<lambda>v. if js_lt step (Fin 0) then js_gt v stop else js_lt v stop)
      in if \<not> before (j 0) then Some []
         else (case (start, stop, step) of
                 (Fin a, Fin b, Fin s) \<Rightarrow>
                   if s = 0 then None else Some (map j [0..<nat \<lceil>(b - a) / s\<rceil>])
               | _ \<Rightarrow> None))"

text \<open>Modelled from the spec: \<^verbatim>\<open>pv.array\<close>, an array of \<open>n\<close> copies of a value
  (the degenerate range of \<open>N\<close> points that all collapse to \<open>min\<close>).\<close>

definition pv_array :: "nat \<Rightarrow> 'a \<Rightarrow> 'a list" where
  "pv_array n v = replicate n v"

text \<open>
  The split methods take the numbers \<open>min\<close> and \<open>max\<close> (here \<open>lo\<close> and \<open>hi\<close>) and
  replace the range. A method whose call of \<^verbatim>\<open>pv.range\<close> does not return does not
  return either.
\<close>

definition scale_split :: "('v, jsnum) ordinal \<Rightarrow> jsnum \<Rightarrow> jsnum \<Rightarrow> ('v, jsnum) ordinal option" where
  "scale_split st lo hi =
     (let R = js_sub hi lo;
          N = length (domain_d st)
      in if js_seq R (Fin 0) then
           Some (st\<lparr>range_r := (new_range (pv_array N lo))
                      \<lparr>r_min := Num lo, r_max := Num hi, r_step := Num (Fin 0)\<rparr>\<rparr>)
         else if N \<noteq> 0 then
           (let step = js_div (js_sub hi lo) (Fin (real N))
            in case pv_range (js_add lo (js_div step (Fin 2))) hi step of
                 None \<Rightarrow> None
               | Some xs \<Rightarrow>
                   Some (st\<lparr>range_r := (new_range xs)
                              \<lparr>r_min := Num lo, r_max := Num hi, r_step := Num step\<rparr>\<rparr>))
         else Some (st\<lparr>range_r := (range_r st)
                          \<lparr>r_min := Num lo, r_max := Num hi, r_step := Num (Fin 0)\<rparr>\<rparr>))"

definition scale_splitBandedCenter ::
  "('v, jsnum) ordinal \<Rightarrow> jsnum \<Rightarrow> jsnum \<Rightarrow> jsval \<Rightarrow> ('v, jsnum) ordinal option" where
  "scale_splitBandedCenter st lo hi band =
     (case scale_split st lo hi of
        None \<Rightarrow> None
      | Some st1 \<Rightarrow>
          (let band1 = (if eq_null band then Num (Fin 1) else band);
               r = range_r st1;
               b = js_mul (ToNumber (r_step r)) (ToNumber band1);
               m = js_sub (ToNumber (r_step r)) b
           in Some (st1\<lparr>range_r := r\<lparr>r_band := Num b, r_margin := Num m,
                                        r_min := Num lo, r_max := Num hi\<rparr>\<rparr>)))"

definition scale_splitBandedFlushCenter ::
  "('v, jsnum) ordinal \<Rightarrow> jsnum \<Rightarrow> jsnum \<Rightarrow> jsval \<Rightarrow> ('v, jsnum) ordinal option" where
  "scale_splitBandedFlushCenter st lo hi band =
     (let band1 = (if eq_null band then Num (Fin 1) else band);
          R = js_sub hi lo;
          N = length (domain_d st);
          finish = (\<lambda>r S B M. Some (st\<lparr>range_r := r\<lparr>r_step := Num S, r_band := Num B,
                       r_margin := Num M, r_min := Num lo, r_max := Num hi\<rparr>\<rparr>))
      in if js_seq R (Fin 0) then finish (new_range (pv_array N lo)) (Fin 0) (Fin 0) (Fin 0)
         else if N \<noteq> 0 then
           (let B = js_div (js_mul R (ToNumber band1)) (Fin (real N));
                M = (if N > 1 then js_div (js_sub R (js_mul (Fin (real N)) B)) (Fin (real N - 1))
                     else Fin 0);
                S = js_add M B
            in case pv_range (js_add lo (js_div B (Fin 2))) hi S of
                 None \<Rightarrow> None
               | Some xs \<Rightarrow> finish (new_range xs) S B M)
         else finish (range_r st) (Fin 0) (Fin 0) (Fin 0))"

definition scale_splitFlush :: "('v, jsnum) ordinal \<Rightarrow> jsnum \<Rightarrow> jsnum \<Rightarrow> ('v, jsnum) ordinal option" where
  "scale_splitFlush st lo hi =
     (let n = length (domain_d st);
          step = js_div (js_sub hi lo) (Fin (real n - 1));
          finish = (\<lambda>xs. Some (st\<lparr>range_r := (new_range xs)\<lparr>r_min := Num lo, r_max := Num hi\<rparr>\<rparr>))
      in if n = 1 then finish [js_div (js_add lo hi) (Fin 2)]
         else (case pv_range lo (js_add hi (js_div step (Fin 2))) step of
                 None \<Rightarrow> None
               | Some xs \<Rightarrow> finish xs))"

text \<open>\<^verbatim>\<open>scale.splitBanded\<close>; the argument \<open>band\<close> is \<open>None\<close> when the call has
  fewer than three arguments.\<close>

definition scale_splitBanded ::
  "('v, jsnum) ordinal \<Rightarrow> jsnum \<Rightarrow> jsnum \<Rightarrow> jsval option \<Rightarrow> ('v, jsnum) ordinal option" where
  "scale_splitBanded st lo hi band_arg =
     (let band = ToNumber (case band_arg of None \<Rightarrow> Num (Fin 1) | Some b \<Rightarrow> b);
          finish = (\<lambda>r. Some (st\<lparr>range_r := r\<lparr>r_min := Num lo, r_max := Num hi\<rparr>\<rparr>))
      in if js_lt band (Fin 0) then
           (let n = length (domain_d st);
                total = js_mul (js_neg band) (Fin (real n));
                remaining = js_sub (js_sub hi lo) total;
                padding = js_div remaining (Fin (real n + 1))
            in case pv_range (js_add lo padding) hi (js_sub padding band) of
                 None \<Rightarrow> None
               | Some xs \<Rightarrow> finish ((new_range xs)\<lparr>r_band := Num (js_neg band)\<rparr>))
         else
           (let step = js_div (js_sub hi lo)
                         (js_add (Fin (real (length (domain_d st)))) (js_sub (Fin 1) band))
            in case pv_range (js_add lo (js_mul step (js_sub (Fin 1) band))) hi step of
                 None \<Rightarrow> None
               | Some xs \<Rightarrow>
                   finish ((new_range xs)\<lparr>r_band := Num (js_mul step band), r_step := Num step,
                              r_margin := Num (js_sub step (js_mul step band))\<rparr>)))"

subsection \<open>Inverting a position\<close>

text \<open>\<^verbatim>\<open>scale.invertIndex\<close>; \<open>noRound\<close> is the truth value of the second argument.\<close>

definition scale_invertIndex :: "('v, jsnum) ordinal \<Rightarrow> jsnum \<Rightarrow> bool \<Rightarrow> jsnum" where
  "scale_invertIndex st y noRound =
     (let N = length (domain_d st)
      in if N = 0 then Fin (- 1)
         else
           (let r = range_r st;
                R = js_sub (ToNumber (r_max r)) (ToNumber (r_min r))
            in if js_seq R (Fin 0) then Fin 0
               else
                 (let S = js_div R (Fin (real N))
                  in if js_ge y (ToNumber (r_max r)) then Fin (real N)
                     else if js_lt y (ToNumber (r_min r)) then Fin 0
                     else
                       (let i = js_div (js_sub y (ToNumber (r_min r))) S
                        in if noRound then i else js_round i))))"

subsection \<open>Reachable states and concrete scales\<close>

text \<open>The invariant of the closure: the values of the domain have pairwise different
  property names, and the index numbers them by position.\<close>

definition numbered_domain :: "('v \<Rightarrow> string) \<Rightarrow> ('v, 'r) ordinal \<Rightarrow> bool" where
  "numbered_domain key st =
     (distinct (map key (domain_d st)) \<and> index_i st = pv_numerate key (domain_d st))"

text \<open>Scales over strings and over primitive values, used as concrete inputs, and the
  range that a call returning a state has produced.\<close>

definition produced :: "('v, 'r) ordinal option \<Rightarrow> 'r range option" where
  "produced res = map_option range_r res"

definition ab :: "(string, jsnum) ordinal" where
  "ab = pv_Scale_ordinal StringKey (Values [''a'', ''b''] :: (string, string) domain_args)"

definition abcd :: "(string, jsnum) ordinal" where
  "abcd = pv_Scale_ordinal StringKey (Values [''a'', ''b'', ''c'', ''d''] :: (string, string) domain_args)"

definition abcd_split :: "(string, jsnum) ordinal" where
  "abcd_split = abcd\<lparr>range_r := \<lparr>elems = [Fin 12.5, Fin 37.5, Fin 62.5, Fin 87.5],
      r_min = Num (Fin 0), r_max = Num (Fin 100), r_step = Num (Fin 25),
      r_band = Undefined, r_margin = Undefined\<rparr>\<rparr>"

definition abc_run :: "(string, jsnum) ordinal" where
  "abc_run = run_calls StringKey
     (pv_Scale_ordinal StringKey (Values [''a'', ''b'', ''a'', ''c''] :: (string, string) domain_args))
     ([Invoke ''d'', SetRange (new_range [Fin 1, Fin 2]), Invoke ''a''] :: (string, string, jsnum) call list)"

definition ab_ranged :: "(string, jsnum) ordinal" where
  "ab_ranged = run_calls StringKey
     (pv_Scale_ordinal StringKey (Values [''a'', ''b''] :: (string, string) domain_args))
     ([SetRange (new_range [Fin 10, Fin 20])] :: (string, string, jsnum) call list)"

definition true_scale :: "(prim, jsnum) ordinal" where
  "true_scale = run_calls ToPropertyKey
     (pv_Scale_ordinal ToPropertyKey (Values [PString ''true''] :: (prim, prim) domain_args))
     ([SetRange (new_range [Fin 10, Fin 20])] :: (prim, prim, jsnum) call list)"

section \<open>Properties of the dot mark\<close>

subsection \<open>What \<open>buildImplied\<close> stores\<close>

lemma keeps_shape_noop: "keeps_shape Mark_noop"
  by (simp add: keeps_shape_def Mark_noop_def)

lemma shapeRadius_buildImplied:
  "keeps_shape base \<Longrightarrow> shapeRadius (buildImplied base s) =
     (if eq_null (shapeRadius s) then
        (if eq_null (shapeSize s) then Num (Fin 4.5) else Num (js_sqrt (ToNumber (shapeSize s))))
      else shapeRadius s)"
  by (simp add: buildImplied_def keeps_shape_def Let_def)

lemma shapeSize_buildImplied:
  "keeps_shape base \<Longrightarrow> shapeSize (buildImplied base s) =
     (if eq_null (shapeSize s) then
        (if eq_null (shapeRadius s) then Num (Fin 20.25)
         else Num (js_mul (ToNumber (shapeRadius s)) (ToNumber (shapeRadius s))))
      else shapeSize s)"
  by (simp add: buildImplied_def keeps_shape_def Let_def)

lemma u_height_buildImplied:
  assumes "keeps_shape base"
  shows "u_height (buildImplied base s) =
     Num (let a = js_or (aspectRatio s) (Num (Fin 1));
              r = ToNumber (shapeRadius (buildImplied base s))
          in if val_seq a (Fin 1) \<or> js_lt (ToNumber a) (Fin 0) then js_mul (Fin 2) r
             else js_div (js_mul (Fin 2) r) (js_sqrt (ToNumber a)))"
  unfolding shapeRadius_buildImplied[OF assms] using assms
  by (simp add: buildImplied_def keeps_shape_def Let_def)

lemma u_width_buildImplied:
  assumes "keeps_shape base"
  shows "u_width (buildImplied base s) =
     Num (let a = js_or (aspectRatio s) (Num (Fin 1));
              r = ToNumber (shapeRadius (buildImplied base s))
          in if val_seq a (Fin 1) \<or> js_lt (ToNumber a) (Fin 0) then js_mul (Fin 2) r
             else js_mul (ToNumber a) (ToNumber (u_height (buildImplied base s))))"
  unfolding u_height_buildImplied[OF assms] shapeRadius_buildImplied[OF assms] using assms
  by (simp add: buildImplied_def keeps_shape_def Let_def)

lemma sqrt_quarter: "sqrt (1 / 4) = 1 / 2"
  by (rule real_sqrt_unique) (simp_all add: power2_eq_square)

text \<open>
  C1. When radius and size are both unset the instance gets radius 4.5 and size 20.25;
  when only the size \<open>z > 0\<close> is set the radius becomes \<open>sqrt z\<close> and the size stays;
  when only the radius \<open>r > 0\<close> is set the size becomes \<open>r * r\<close> and the radius stays.
\<close>

theorem radius_size_duality:
  assumes "keeps_shape base"
  shows "(eq_null (shapeRadius s) \<and> eq_null (shapeSize s) \<longrightarrow>
            shapeRadius (buildImplied base s) = Num (Fin 4.5) \<and>
            shapeSize (buildImplied base s) = Num (Fin 20.25))
       \<and> (eq_null (shapeRadius s) \<and> shapeSize s = Num (Fin z) \<and> 0 < z \<longrightarrow>
            shapeRadius (buildImplied base s) = Num (Fin (sqrt z)) \<and>
            shapeSize (buildImplied base s) = Num (Fin z))
       \<and> (shapeRadius s = Num (Fin r) \<and> 0 < r \<and> eq_null (shapeSize s) \<longrightarrow>
            shapeSize (buildImplied base s) = Num (Fin (r * r)) \<and>
            shapeRadius (buildImplied base s) = Num (Fin r))"
  by (auto simp add: shapeRadius_buildImplied[OF assms] shapeSize_buildImplied[OF assms])

theorem radius_size_duality_witness:
  "shapeRadius (buildImplied Mark_noop dot_unset) = Num (Fin 4.5)
   \<and> shapeSize (buildImplied Mark_noop dot_unset) = Num (Fin 20.25)
   \<and> shapeRadius (buildImplied Mark_noop (dot_unset\<lparr>shapeSize := Num (Fin 4)\<rparr>)) = Num (Fin 2)
   \<and> shapeSize (buildImplied Mark_noop (dot_unset\<lparr>shapeSize := Num (Fin 4)\<rparr>)) = Num (Fin 4)
   \<and> shapeSize (buildImplied Mark_noop (dot_unset\<lparr>shapeRadius := Num (Fin 3)\<rparr>)) = Num (Fin 9)
   \<and> shapeRadius (buildImplied Mark_noop (dot_unset\<lparr>shapeRadius := Num (Fin 3)\<rparr>)) = Num (Fin 3)"
  using radius_size_duality [OF keeps_shape_noop, of dot_unset 4 3]
    radius_size_duality [OF keeps_shape_noop, of "dot_unset\<lparr>shapeSize := Num (Fin 4)\<rparr>" 4 3]
    radius_size_duality [OF keeps_shape_noop, of "dot_unset\<lparr>shapeRadius := Num (Fin 3)\<rparr>" 4 3]
  by (simp add: dot_unset_def)

text \<open>The area of the distorted shape, for a finite positive aspect ratio other than 1.\<close>

lemma distorted_area:
  assumes "0 < x"
  shows "js_mul (js_mul (Fin x) (js_div (js_mul (Fin 2) r) (js_sqrt (Fin x))))
                (js_div (js_mul (Fin 2) r) (js_sqrt (Fin x)))
         = js_mul (js_mul (Fin 4) r) r"
proof -
  have sq: "sqrt x * sqrt x = x" and pos: "0 < sqrt x" using assms by simp_all
  show ?thesis
  proof (cases r)
    case (Fin \<rho>)
    have "x * (2 * \<rho> / sqrt x) * (2 * \<rho> / sqrt x) = 4 * \<rho> * \<rho> * (x / (sqrt x * sqrt x))"
      by (simp add: field_simps)
    also have "\<dots> = 4 * \<rho> * \<rho>" using assms by (simp add: sq)
    finally show ?thesis using Fin assms by simp
  qed (use assms pos in \<open>simp_all add: less_imp_le\<close>)
qed

text \<open>
  C2, with the falsy aspect ratios set apart and the area taken in exact arithmetic. With
  \<open>a\<close> the aspect ratio of the instance and \<open>r\<close> its resolved radius: when \<open>a\<close> is
  falsy (0, NaN or unset) it counts as 1, and height and width are both \<open>2 * r\<close>; they
  are also both \<open>2 * r\<close> when \<open>a\<close> is 1 or negative; for every other \<open>a\<close> the height is
  \<open>2 * r / sqrt a\<close> and the width is \<open>a\<close> times the height. For every finite \<open>a > 0\<close>
  the product of width and height is \<open>4 * r * r\<close> as a real number; the rounding of the
  64-bit format is not part of this statement.
\<close>

theorem aspect_width_height:
  assumes "keeps_shape base"
    and "a = aspectRatio s"
    and "r = ToNumber (shapeRadius (buildImplied base s))"
    and "h = u_height (buildImplied base s)"
    and "w = u_width (buildImplied base s)"
  shows "(\<not> ToBoolean a \<longrightarrow> h = Num (js_mul (Fin 2) r) \<and> w = Num (js_mul (Fin 2) r))
       \<and> (ToBoolean a \<and> (val_seq a (Fin 1) \<or> js_lt (ToNumber a) (Fin 0)) \<longrightarrow>
            h = Num (js_mul (Fin 2) r) \<and> w = Num (js_mul (Fin 2) r))
       \<and> (ToBoolean a \<and> \<not> (val_seq a (Fin 1) \<or> js_lt (ToNumber a) (Fin 0)) \<longrightarrow>
            h = Num (js_div (js_mul (Fin 2) r) (js_sqrt (ToNumber a))) \<and>
            w = Num (js_mul (ToNumber a) (ToNumber h)))
       \<and> (a = Num (Fin x) \<and> 0 < x \<longrightarrow>
            js_mul (ToNumber w) (ToNumber h) = js_mul (js_mul (Fin 4) r) r)"
proof (intro conjI impI)
  assume "a = Num (Fin x) \<and> 0 < x"
  then have a: "aspectRatio s = Num (Fin x)" and x: "0 < x" using assms(2) by simp_all
  show "js_mul (ToNumber w) (ToNumber h) = js_mul (js_mul (Fin 4) r) r"
  proof (cases "x = 1")
    case True
    have "js_mul (js_mul (Fin 2) r) (js_mul (Fin 2) r) = js_mul (js_mul (Fin 4) r) r"
      by (cases r) simp_all
    then show ?thesis
      using True a assms(3)[symmetric]
      by (simp add: assms(4,5) u_width_buildImplied[OF assms(1)] u_height_buildImplied[OF assms(1)]
          js_or_def val_seq_def js_seq_def)
  next
    case False
    then show ?thesis
      using a x distorted_area[OF x, of r] assms(3)[symmetric]
      by (simp add: assms(4,5) u_width_buildImplied[OF assms(1)] u_height_buildImplied[OF assms(1)]
          js_or_def val_seq_def js_seq_def)
  qed
qed (simp_all add: assms(2-5) u_width_buildImplied[OF assms(1)] u_height_buildImplied[OF assms(1)]
    Let_def js_or_def val_seq_def js_seq_def)

theorem aspect_width_height_witness:
  "u_height (buildImplied Mark_noop (host\<lparr>aspectRatio := Num (Fin 0.25)\<rparr>)) = Num (Fin 18)
   \<and> u_width (buildImplied Mark_noop (host\<lparr>aspectRatio := Num (Fin 0.25)\<rparr>)) = Num (Fin 4.5)
   \<and> js_mul (Fin 4.5) (Fin 18) = js_mul (js_mul (Fin 4) (Fin 4.5)) (Fin 4.5)
   \<and> u_height (buildImplied Mark_noop host) = Num (Fin 9)
   \<and> u_width (buildImplied Mark_noop host) = Num (Fin 9)
   \<and> u_height (buildImplied Mark_noop (host\<lparr>aspectRatio := Num (Fin (- 1))\<rparr>)) = Num (Fin 9)
   \<and> u_width (buildImplied Mark_noop (host\<lparr>aspectRatio := Num (Fin (- 1))\<rparr>)) = Num (Fin 9)
   \<and> u_height (buildImplied Mark_noop (host\<lparr>aspectRatio := Undefined\<rparr>)) = Num (Fin 9)
   \<and> u_width (buildImplied Mark_noop (host\<lparr>aspectRatio := Undefined\<rparr>)) = Num (Fin 9)"
  using aspect_width_height [OF keeps_shape_noop refl refl refl refl, of "host\<lparr>aspectRatio := Num (Fin 0.25)\<rparr>" "1/4"]
    aspect_width_height [OF keeps_shape_noop refl refl refl refl, of host 1]
    aspect_width_height [OF keeps_shape_noop refl refl refl refl, of "host\<lparr>aspectRatio := Num (Fin (- 1))\<rparr>" 1]
    aspect_width_height [OF keeps_shape_noop refl refl refl refl, of "host\<lparr>aspectRatio := Undefined\<rparr>" 1]
  by (simp add: host_def shapeRadius_buildImplied[OF keeps_shape_noop] val_seq_def
      js_seq_def sqrt_quarter)

text \<open>
  Read on the aspect ratio of the instance alone, the statement fails at the ratio 0,
  which is neither 1 nor negative: dividing by its square root would give an infinite
  height, while the method stores twice the radius, 9.
\<close>

theorem aspect_width_height_counterexample:
  "aspectRatio (host\<lparr>aspectRatio := Num (Fin 0)\<rparr>) = Num (Fin 0)
   \<and> \<not> (val_seq (Num (Fin 0)) (Fin 1) \<or> js_lt (ToNumber (Num (Fin 0))) (Fin 0))
   \<and> shapeRadius (buildImplied Mark_noop (host\<lparr>aspectRatio := Num (Fin 0)\<rparr>)) = Num (Fin 4.5)
   \<and> js_div (js_mul (Fin 2) (Fin 4.5)) (js_sqrt (ToNumber (Num (Fin 0)))) = PInf
   \<and> u_height (buildImplied Mark_noop (host\<lparr>aspectRatio := Num (Fin 0)\<rparr>)) = Num (Fin 9)
   \<and> u_height (buildImplied Mark_noop (host\<lparr>aspectRatio := Num (Fin 0)\<rparr>)) \<noteq> Num PInf"
  by (simp add: host_def shapeRadius_buildImplied[OF keeps_shape_noop]
      u_height_buildImplied[OF keeps_shape_noop] js_or_def val_seq_def js_seq_def)

text \<open>
  C10. A falsy aspect ratio (0, NaN or unset) is replaced by 1: width and height are both
  twice the resolved radius, and finite when the radius is; the branch that divides by
  the square root of the ratio is not taken.
\<close>

theorem falsy_aspect_is_one:
  assumes "keeps_shape base" and "\<not> ToBoolean (aspectRatio s)"
  shows "u_width (buildImplied base s) = Num (js_mul (Fin 2) (ToNumber (shapeRadius (buildImplied base s))))
       \<and> u_height (buildImplied base s) = Num (js_mul (Fin 2) (ToNumber (shapeRadius (buildImplied base s))))
       \<and> (shapeRadius (buildImplied base s) = Num (Fin \<rho>) \<longrightarrow>
             u_width (buildImplied base s) = Num (Fin (2 * \<rho>)) \<and>
             u_height (buildImplied base s) = Num (Fin (2 * \<rho>)))"
  using assms(2)
  by (simp add: u_width_buildImplied[OF assms(1)] u_height_buildImplied[OF assms(1)]
      js_or_def val_seq_def js_seq_def)

theorem falsy_aspect_is_one_witness:
  "u_width (buildImplied Mark_noop (host\<lparr>aspectRatio := Num (Fin 0)\<rparr>)) = Num (Fin 9)
   \<and> u_height (buildImplied Mark_noop (host\<lparr>aspectRatio := Num (Fin 0)\<rparr>)) = Num (Fin 9)
   \<and> u_width (buildImplied Mark_noop (host\<lparr>aspectRatio := Num NaN\<rparr>)) = Num (Fin 9)
   \<and> u_height (buildImplied Mark_noop (host\<lparr>aspectRatio := Num NaN\<rparr>)) = Num (Fin 9)"
  using falsy_aspect_is_one [OF keeps_shape_noop, of "host\<lparr>aspectRatio := Num (Fin 0)\<rparr>" "9/2"]
    falsy_aspect_is_one [OF keeps_shape_noop, of "host\<lparr>aspectRatio := Num NaN\<rparr>" "9/2"]
  by (simp add: host_def shapeRadius_buildImplied[OF keeps_shape_noop])

subsection \<open>Anchors\<close>

text \<open>
  C3, as the source has it. The anchor named \<open>top\<close> takes its \<open>left\<close> from the host,
  leaves \<open>right\<close> and \<open>top\<close> null, is centred and sits on the bottom baseline; its
  \<open>bottom\<close> is the host's \<open>bottom\<close> plus half the host's height. For a host with left
  10, bottom 20 and height 6 the anchor's \<open>bottom\<close> is 23.
\<close>

theorem top_anchor:
  "anchor_left ''top'' s = left s
   \<and> anchor_right ''top'' s = Null
   \<and> anchor_top ''top'' s = Null
   \<and> anchor_bottom ''top'' s = Num (js_add (ToNumber (bottom s)) (js_div (ToNumber (u_height s)) (Fin 2)))
   \<and> anchor_textAlign ''top'' = ''center''
   \<and> anchor_textBaseline ''top'' = ''bottom''
   \<and> (left s = Num (Fin 10) \<and> bottom s = Num (Fin 20) \<and> u_height s = Num (Fin 6) \<longrightarrow>
        anchor_left ''top'' s = Num (Fin 10) \<and> anchor_bottom ''top'' s = Num (Fin 23))"
  by (simp add: anchor_left_def anchor_right_def anchor_top_def anchor_bottom_def
      anchor_textAlign_def anchor_textBaseline_def)

theorem top_anchor_witness:
  "anchor_left ''top'' (host\<lparr>bottom := Num (Fin 20)\<rparr>) = Num (Fin 10)
   \<and> anchor_bottom ''top'' (host\<lparr>bottom := Num (Fin 20)\<rparr>) = Num (Fin 23)"
  using top_anchor [of "host\<lparr>bottom := Num (Fin 20)\<rparr>"]
  by (simp add: host_def)

text \<open>
  The statement as the specification words it, with the host's \<open>top\<close> in place of its
  \<open>bottom\<close>, fails: for the host with left 10, top 20, width 8 and height 6, whose
  bottom is 180, the anchor's \<open>bottom\<close> is 183.
\<close>

theorem top_anchor_counterexample:
  "anchor_bottom ''top'' host \<noteq>
     Num (js_add (ToNumber (top' host)) (js_div (ToNumber (u_height host)) (Fin 2)))
   \<and> anchor_bottom ''top'' host \<noteq> Num (Fin 23)
   \<and> anchor_bottom ''top'' host = Num (Fin 183)"
  by (simp add: anchor_bottom_def host_def)

subsection \<open>The primitive for hit testing\<close>

text \<open>
  C9. For a resolved instance, with numbers for its position and extents: the shapes
  \<open>square\<close> and \<open>cross\<close> give a rectangle centred at (left, top) whose width is the
  instance's height field and whose height is its width field; \<open>diamond\<close> gives the same
  rectangle with both extents multiplied by \<open>sqrt 2\<close>; every other shape gives the circle
  at (left, top) with the instance's radius.
\<close>

theorem getShapeCore_primitive:
  assumes "left s = Num (Fin cx)" and "top' s = Num (Fin cy)"
    and "u_width s = Num (Fin W)" and "u_height s = Num (Fin H)"
  shows "(shape s = ''square'' \<or> shape s = ''cross'' \<longrightarrow>
            getShapeCore s = Rect (Num (Fin (cx - H / 2))) (Num (Fin (cy - W / 2))) (Num (Fin H)) (Num (Fin W))
            \<and> core_extent (getShapeCore s) = Some (u_height s, u_width s)
            \<and> core_center (getShapeCore s) = (Fin cx, Fin cy))
       \<and> (shape s = ''diamond'' \<longrightarrow>
            getShapeCore s = Rect (Num (Fin (cx - H * sqrt 2 / 2))) (Num (Fin (cy - W * sqrt 2 / 2)))
                                  (Num (Fin (H * sqrt 2))) (Num (Fin (W * sqrt 2)))
            \<and> core_extent (getShapeCore s) = Some (Num (Fin (H * sqrt 2)), Num (Fin (W * sqrt 2)))
            \<and> core_center (getShapeCore s) = (Fin cx, Fin cy))
       \<and> (shape s \<noteq> ''square'' \<and> shape s \<noteq> ''cross'' \<and> shape s \<noteq> ''diamond'' \<longrightarrow>
            getShapeCore s = Circle (left s) (top' s) (shapeRadius s)
            \<and> core_center (getShapeCore s) = (Fin cx, Fin cy))"
  using assms by (simp add: getShapeCore_def Let_def js_sub_def SQRT2_def)

theorem getShapeCore_primitive_witness:
  "getShapeCore host = Rect (Num (Fin 7)) (Num (Fin 16)) (Num (Fin 6)) (Num (Fin 8))
   \<and> getShapeCore (host\<lparr>shape := ''diamond''\<rparr>) =
       Rect (Num (Fin (10 - 6 * sqrt 2 / 2))) (Num (Fin (20 - 8 * sqrt 2 / 2)))
            (Num (Fin (6 * sqrt 2))) (Num (Fin (8 * sqrt 2)))
   \<and> getShapeCore (host\<lparr>shape := ''circle''\<rparr>) = Circle (Num (Fin 10)) (Num (Fin 20)) (Num (Fin 4.5))"
  using getShapeCore_primitive [of host 10 20 8 6]
    getShapeCore_primitive [of "host\<lparr>shape := ''diamond''\<rparr>" 10 20 8 6]
    getShapeCore_primitive [of "host\<lparr>shape := ''circle''\<rparr>" 10 20 8 6]
  by (simp add: host_def)


section \<open>Properties of the ordinal scale\<close>

subsection \<open>Splits\<close>

text \<open>The array that \<open>pv_range\<close> returns is the one a loop would build: its values are
  \<open>start + step * i\<close>, each lies before the end, and the next value does not.\<close>

lemma pv_range_loop:
  assumes "pv_range start stop step = Some xs"
    and j: "j = (\<lambda>i::nat. js_add start (js_mul step (Fin (real i))))"
    and before: "before = (\<lambda>v. if js_lt step (Fin 0) then js_gt v stop else js_lt v stop)"
  shows "xs = map j [0..<length xs] \<and> (\<forall>i < length xs. before (j i)) \<and> \<not> before (j (length xs))"
proof -
  have range: "pv_range start stop step =
     (if \<not> before (j 0) then Some []
      else (case (start, stop, step) of
              (Fin a, Fin b, Fin s) \<Rightarrow>
                if s = 0 then None else Some (map j [0..<nat \<lceil>(b - a) / s\<rceil>])
            | _ \<Rightarrow> None))"
    unfolding pv_range_def Let_def j before by (rule refl)
  show ?thesis
  proof (cases "before (j 0)")
    case False
    then have "xs = []" using assms(1) by (simp add: range)
    then show ?thesis using False by simp
  next
    case True
    then obtain a b s where fin: "start = Fin a" "stop = Fin b" "step = Fin s" and s0: "s \<noteq> 0"
      and xs: "xs = map j [0..<nat \<lceil>(b - a) / s\<rceil>]"
      using assms(1)
      by (auto simp add: range split: if_splits jsnum.splits)
    define q where "q = (b - a) / s"
    define n where "n = nat \<lceil>q\<rceil>"
    have len: "length xs = n" by (simp add: xs n_def q_def)
    have ji: "\<And>i. j i = Fin (a + s * real i)" by (simp add: j fin)
    have bq: "\<And>i. before (j i) = (real i < q)"
    proof -
      fix i
      show "before (j i) = (real i < q)"
      proof (cases "s < 0")
        case True
        then show ?thesis
          by (simp add: ji before fin js_gt_def q_def field_simps)
      next
        case False
        then have "0 < s" using s0 by simp
        then show ?thesis
          by (simp add: ji before fin js_gt_def q_def field_simps)
      qed
    qed
    have q0: "0 < q" using True by (simp add: bq)
    have below: "\<forall>i < n. real i < q"
    proof (intro allI impI)
      fix i assume "i < n"
      then have "int i < \<lceil>q\<rceil>" by (simp add: n_def)
      then show "real i < q" by (simp add: less_ceiling_iff)
    qed
    have "q \<le> real_of_int \<lceil>q\<rceil>" by (rule le_of_int_ceiling)
    moreover have "real_of_int \<lceil>q\<rceil> = real n" using q0 by (simp add: n_def)
    ultimately have "\<not> real n < q" by simp
    then show ?thesis using below by (simp add: len bq xs n_def q_def)
  qed
qed

text \<open>Where \<open>pv_range\<close> has no result, every value of the sequence lies before the end:
  the loop would never stop.\<close>

lemma pv_range_endless:
  assumes "pv_range start stop step = None"
    and j: "j = (\<lambda>i::nat. js_add start (js_mul step (Fin (real i))))"
    and before: "before = (\<lambda>v. if js_lt step (Fin 0) then js_gt v stop else js_lt v stop)"
  shows "before (j i)"
proof -
  have first: "before (j 0)"
    using assms(1) unfolding pv_range_def Let_def j before by (simp split: if_splits)
  show ?thesis
  proof (cases "\<exists>a b s. start = Fin a \<and> stop = Fin b \<and> step = Fin s")
    case True
    then obtain a b s where fin: "start = Fin a" "stop = Fin b" "step = Fin s" by blast
    have "s = 0"
      using assms(1) first unfolding pv_range_def Let_def j before
      by (simp add: fin split: if_splits)
    then show ?thesis using first by (simp add: j before fin)
  next
    case False
    then show ?thesis
      using first unfolding j before js_gt_def
      by (cases start; cases stop; cases step) (simp_all split: if_splits)
  qed
qed

text \<open>The range of numbers that a split asks for, when start, end and step are finite and
  the end lies a whole number \<open>n > 0\<close> of steps after the start.\<close>

lemma pv_range_steps:
  assumes "s \<noteq> 0" and "(b - a) / s = real n" and "0 < n"
  shows "pv_range (Fin a) (Fin b) (Fin s) = Some (map (\<lambda>k. Fin (a + s * real k)) [0..<n])"
proof -
  have ba: "b - a = real n * s" using assms(1,2) by (simp add: field_simps)
  have pos: "0 < real n" using assms(3) by simp
  have before: "if s < 0 then b < a else a < b"
  proof (cases "s < 0")
    case True
    then have "real n * s < 0" using pos by (simp add: mult_pos_neg)
    then show ?thesis using True ba by simp
  next
    case False
    then have "0 < s" using assms(1) by simp
    then have "0 < real n * s" using pos by simp
    then show ?thesis using False ba by simp
  qed
  have count: "nat \<lceil>(b - a) / s\<rceil> = n" using assms(2) by simp
  show ?thesis
    using before assms(1) by (simp add: pv_range_def js_gt_def count split: if_splits)
qed

text \<open>The two scales used as concrete inputs: two and four domain values.\<close>

lemma ab_domain: "domain_d ab = [''a'', ''b'']"
  by (simp add: ab_def pv_Scale_ordinal_def scale_domain_def ordinal0_def js_in_def
      Object_prototype_keys_def Let_def StringKey_def)

lemma abcd_domain: "domain_d abcd = [''a'', ''b'', ''c'', ''d'']"
  by (simp add: abcd_def pv_Scale_ordinal_def scale_domain_def ordinal0_def js_in_def
      Object_prototype_keys_def Let_def StringKey_def)

lemma upt_2: "[0..<2] = [0, 1]"
  by (simp add: upt_rec)

lemma ab_ranged: "ab_ranged = ab\<lparr>range_r := new_range [Fin 10, Fin 20]\<rparr>"
  by (simp add: ab_ranged_def ab_def run_calls_def)

lemma ab_index: "index_i ab = map_of [(''a'', 0), (''b'', 1)]"
  by (simp add: ab_def pv_Scale_ordinal_def scale_domain_def ordinal0_def js_in_def
      Object_prototype_keys_def Let_def pv_numerate_def upt_rec StringKey_def)

lemma abc_run_domain: "domain_d abc_run = [''a'', ''b'', ''c'', ''d'']"
  by (simp add: abc_run_def run_calls_def pv_Scale_ordinal_def scale_domain_def ordinal0_def
      js_in_def Object_prototype_keys_def Let_def scale_def pv_numerate_def upt_rec StringKey_def)

text \<open>
  C6, with the one band width excluded at which the divisor \<open>N + (1 - band)\<close> is zero.
  For a domain of \<open>N \<ge> 1\<close> values and \<open>min < max\<close>: with \<open>band \<ge> 0\<close>,
  \<open>splitBanded\<close> returns, the step is \<open>(max - min) / (N + (1 - band))\<close>, the \<open>N\<close>
  positions start at \<open>min + step * (1 - band)\<close> and lie one step apart, the band is
  \<open>step * band\<close> and the margin is \<open>step - band\<close>; with \<open>band < 0\<close> the band is
  \<open>- band\<close> and the \<open>N\<close> positions start at \<open>min + padding\<close>, where
  \<open>padding = (max - min - N * (- band)) / (N + 1)\<close>.
\<close>

theorem split_banded:
  assumes "length (domain_d st) = N" and "1 \<le> N" and "lo < hi"
  shows "(0 \<le> b \<and> b \<noteq> real N + 1 \<longrightarrow>
           (case scale_splitBanded st (Fin lo) (Fin hi) (Some (Num (Fin b))) of
              None \<Rightarrow> False
            | Some st' \<Rightarrow>
               (let step = (hi - lo) / (real N + (1 - b)); r = range_r st'
                in r_step r = Num (Fin step)
                   \<and> elems r = map (\<lambda>k. Fin (lo + step * (1 - b) + step * real k)) [0..<N]
                   \<and> hd (elems r) = Fin (lo + step * (1 - b))
                   \<and> r_band r = Num (Fin (step * b))
                   \<and> r_margin r = Num (Fin (step - step * b))
                   \<and> r_min r = Num (Fin lo) \<and> r_max r = Num (Fin hi))))
       \<and> (b < 0 \<longrightarrow>
           (case scale_splitBanded st (Fin lo) (Fin hi) (Some (Num (Fin b))) of
              None \<Rightarrow> False
            | Some st' \<Rightarrow>
               (let padding = (hi - lo - real N * (- b)) / (real N + 1); r = range_r st'
                in r_band r = Num (Fin (- b))
                   \<and> elems r = map (\<lambda>k. Fin (lo + padding + (padding - b) * real k)) [0..<N]
                   \<and> hd (elems r) = Fin (lo + padding)
                   \<and> r_min r = Num (Fin lo) \<and> r_max r = Num (Fin hi))))
       \<and> scale_splitBanded st (Fin lo) (Fin hi) None
           = scale_splitBanded st (Fin lo) (Fin hi) (Some (Num (Fin 1)))"
proof (intro conjI impI)
  have Npos: "0 < N" using assms(2) by simp
  have hd_map: "\<And>f. hd (map f [0..<N]) = f 0"
    using Npos by (simp add: hd_map upt_conv_Cons)
  {
    assume b: "0 \<le> b \<and> b \<noteq> real N + 1"
    define step where "step = (hi - lo) / (real N + (1 - b))"
    have den: "real N + (1 - b) \<noteq> 0" using b by auto
    have step0: "step \<noteq> 0" using den assms(3) by (simp add: step_def)
    have R: "hi - lo = step * (real N + (1 - b))" using den by (simp add: step_def)
    have "hi - (lo + step * (1 - b)) = step * real N" using R by (simp add: algebra_simps)
    then have cnt: "(hi - (lo + step * (1 - b))) / step = real N" using step0 by simp
    have rng: "pv_range (Fin (lo + step * (1 - b))) (Fin hi) (Fin step)
                 = Some (map (\<lambda>k. Fin (lo + step * (1 - b) + step * real k)) [0..<N])"
      by (rule pv_range_steps[OF step0 cnt Npos])
    show "case scale_splitBanded st (Fin lo) (Fin hi) (Some (Num (Fin b))) of
              None \<Rightarrow> False
            | Some st' \<Rightarrow>
               (let step = (hi - lo) / (real N + (1 - b)); r = range_r st'
                in r_step r = Num (Fin step)
                   \<and> elems r = map (\<lambda>k. Fin (lo + step * (1 - b) + step * real k)) [0..<N]
                   \<and> hd (elems r) = Fin (lo + step * (1 - b))
                   \<and> r_band r = Num (Fin (step * b))
                   \<and> r_margin r = Num (Fin (step - step * b))
                   \<and> r_min r = Num (Fin lo) \<and> r_max r = Num (Fin hi))"
      using b den rng
      by (simp add: scale_splitBanded_def assms(1) js_sub_def Let_def new_range_def hd_map
          step_def[symmetric])
  }
  {
    assume b: "b < 0"
    define p where "p = (hi - lo - real N * (- b)) / (real N + 1)"
    have N1: "real N + 1 \<noteq> 0" by (metis of_nat_Suc of_nat_eq_0_iff nat.distinct(1) add.commute Suc_eq_plus1 of_nat_add of_nat_1)
    have pb: "p - b = (hi - lo - b) / (real N + 1)"
      using N1 by (simp add: p_def field_simps)
    have "0 < hi - lo - b" using b assms(3) by simp
    then have step0: "p - b \<noteq> 0" using pb N1 by simp
    have "hi - (lo + p) = real N * (p - b)"
      using N1 by (simp add: p_def field_simps)
    then have cnt: "(hi - (lo + p)) / (p - b) = real N" using step0 by simp
    have rng: "pv_range (Fin (lo + p)) (Fin hi) (Fin (p - b))
                 = Some (map (\<lambda>k. Fin (lo + p + (p - b) * real k)) [0..<N])"
      by (rule pv_range_steps[OF step0 cnt Npos])
    show "case scale_splitBanded st (Fin lo) (Fin hi) (Some (Num (Fin b))) of
              None \<Rightarrow> False
            | Some st' \<Rightarrow>
               (let padding = (hi - lo - real N * (- b)) / (real N + 1); r = range_r st'
                in r_band r = Num (Fin (- b))
                   \<and> elems r = map (\<lambda>k. Fin (lo + padding + (padding - b) * real k)) [0..<N]
                   \<and> hd (elems r) = Fin (lo + padding)
                   \<and> r_min r = Num (Fin lo) \<and> r_max r = Num (Fin hi))"
      using b N1 rng[unfolded p_def]
      by (simp add: scale_splitBanded_def assms(1) js_sub_def Let_def new_range_def hd_map
          mult.commute[of b "real N"])
  }
  show "scale_splitBanded st (Fin lo) (Fin hi) None
           = scale_splitBanded st (Fin lo) (Fin hi) (Some (Num (Fin 1)))"
    by (simp add: scale_splitBanded_def)
qed

theorem split_banded_witness:
  "map_option elems (produced (scale_splitBanded ab (Fin 0) (Fin 100) (Some (Num (Fin 1)))))
     = Some [Fin 0, Fin 50]
   \<and> map_option r_step (produced (scale_splitBanded ab (Fin 0) (Fin 100) (Some (Num (Fin 1)))))
     = Some (Num (Fin 50))
   \<and> map_option r_band (produced (scale_splitBanded ab (Fin 0) (Fin 100) (Some (Num (Fin 1)))))
     = Some (Num (Fin 50))
   \<and> map_option r_margin (produced (scale_splitBanded ab (Fin 0) (Fin 100) (Some (Num (Fin 1)))))
     = Some (Num (Fin 0))
   \<and> scale_splitBanded ab (Fin 0) (Fin 100) None
     = scale_splitBanded ab (Fin 0) (Fin 100) (Some (Num (Fin 1)))
   \<and> map_option elems (produced (scale_splitBanded ab (Fin 0) (Fin 100) (Some (Num (Fin (- 10))))))
     = Some [Fin (80 / 3), Fin (190 / 3)]
   \<and> map_option r_band (produced (scale_splitBanded ab (Fin 0) (Fin 100) (Some (Num (Fin (- 10))))))
     = Some (Num (Fin 10))"
  using split_banded [of ab 2 0 100 1] split_banded [of ab 2 0 100 "- 10"]
  by (simp add: ab_domain upt_2 Let_def produced_def split: option.splits)

text \<open>
  At \<open>band = N + 1\<close> the statement without that exclusion fails: the step is infinite and there is
  no position at all. Here \<open>N = 2\<close> and \<open>band = 3\<close>.
\<close>

theorem split_banded_counterexample:
  "map_option elems (produced (scale_splitBanded ab (Fin 0) (Fin 100) (Some (Num (Fin 3))))) = Some []
   \<and> map_option r_step (produced (scale_splitBanded ab (Fin 0) (Fin 100) (Some (Num (Fin 3)))))
       = Some (Num PInf)"
  by (simp add: scale_splitBanded_def ab_domain js_sub_def pv_range_def js_gt_def Let_def
      new_range_def produced_def)

text \<open>
  C8 at two concrete inputs. With \<open>max = min = 5\<close> and a domain of two values,
  \<open>splitFlush\<close> and \<open>splitBanded\<close> return, but the range they produce is empty: it
  is not two positions equal to 5.
\<close>

theorem degenerate_split_flush_banded:
  "map_option elems (produced (scale_splitFlush ab (Fin 5) (Fin 5))) = Some []
   \<and> map_option elems (produced (scale_splitBanded ab (Fin 5) (Fin 5) None)) = Some []
   \<and> length (domain_d ab) = 2"
  by (simp add: scale_splitFlush_def scale_splitBanded_def ab_domain js_sub_def pv_range_def
      js_gt_def Let_def new_range_def produced_def)

text \<open>The three methods that test \<^verbatim>\<open>R === 0\<close>, and \<open>splitFlush\<close> on a single
  value, do collapse every position to \<open>min\<close>.\<close>

lemma degenerate_split_guarded:
  "map_option elems (produced (scale_split st (Fin x) (Fin x)))
     = Some (replicate (length (domain_d st)) (Fin x))"
  "map_option elems (produced (scale_splitBandedCenter st (Fin x) (Fin x) band))
     = Some (replicate (length (domain_d st)) (Fin x))"
  "map_option elems (produced (scale_splitBandedFlushCenter st (Fin x) (Fin x) band))
     = Some (replicate (length (domain_d st)) (Fin x))"
  "length (domain_d st) = 1 \<Longrightarrow>
   map_option elems (produced (scale_splitFlush st (Fin x) (Fin x))) = Some [Fin x]"
  by (simp_all add: scale_split_def scale_splitBandedCenter_def scale_splitBandedFlushCenter_def
      scale_splitFlush_def js_sub_def js_seq_def pv_array_def new_range_def Let_def produced_def)

subsection \<open>The inverse\<close>

lemma abcd_split: "scale_split abcd (Fin 0) (Fin 100) = Some abcd_split"
  by (simp add: scale_split_def abcd_domain abcd_split_def js_sub_def js_seq_def pv_range_def
      js_gt_def Let_def new_range_def upt_rec)

text \<open>
  C7. \<open>invertIndex\<close> always returns a number: \<open>-1\<close> for an empty domain; otherwise 0
  when \<open>max - min\<close> is zero; otherwise the domain's length \<open>N\<close> when \<open>y \<ge> max\<close>;
  otherwise 0 when \<open>y < min\<close>; otherwise \<open>(y - min) / ((max - min) / N)\<close>, rounded to
  the nearest integer unless \<open>noRound\<close> is set.
\<close>

theorem invert_index:
  assumes "N = length (domain_d st)"
    and "lo = ToNumber (r_min (range_r st))"
    and "hi = ToNumber (r_max (range_r st))"
    and "R = js_sub hi lo"
    and "q = js_div (js_sub y lo) (js_div R (Fin (real N)))"
  shows "(N = 0 \<longrightarrow> scale_invertIndex st y noRound = Fin (- 1))
       \<and> (N \<noteq> 0 \<and> js_seq R (Fin 0) \<longrightarrow> scale_invertIndex st y noRound = Fin 0)
       \<and> (N \<noteq> 0 \<and> \<not> js_seq R (Fin 0) \<and> js_ge y hi \<longrightarrow>
            scale_invertIndex st y noRound = Fin (real N))
       \<and> (N \<noteq> 0 \<and> \<not> js_seq R (Fin 0) \<and> \<not> js_ge y hi \<and> js_lt y lo \<longrightarrow>
            scale_invertIndex st y noRound = Fin 0)
       \<and> (N \<noteq> 0 \<and> \<not> js_seq R (Fin 0) \<and> \<not> js_ge y hi \<and> \<not> js_lt y lo \<longrightarrow>
            scale_invertIndex st y noRound = (if noRound then q else js_round q))
       \<and> (N \<noteq> 0 \<and> lo = Fin a \<and> hi = Fin b \<and> y = Fin t \<and> a \<le> t \<and> t < b \<longrightarrow>
            scale_invertIndex st y True = Fin ((t - a) / ((b - a) / real N))
            \<and> scale_invertIndex st y False = Fin (of_int (round ((t - a) / ((b - a) / real N)))))"
  by (auto simp add: scale_invertIndex_def assms Let_def js_sub_def js_seq_def js_ge_def round_def)

theorem invert_index_witness:
  "scale_invertIndex (ordinal0 :: (string, jsnum) ordinal) (Fin 7) False = Fin (- 1)
   \<and> scale_invertIndex (abcd\<lparr>range_r := new_range [Fin 5, Fin 5, Fin 5, Fin 5]
        \<lparr>r_min := Num (Fin 5), r_max := Num (Fin 5)\<rparr>\<rparr>) (Fin 7) False = Fin 0
   \<and> scale_invertIndex abcd_split (Fin 100) False = Fin 4
   \<and> scale_invertIndex abcd_split (Fin (- 5)) False = Fin 0
   \<and> scale_invertIndex abcd_split (Fin 0) False = Fin 0
   \<and> scale_invertIndex abcd_split (Fin 12) False = Fin 0
   \<and> scale_invertIndex abcd_split (Fin 99) False = Fin 4
   \<and> scale_invertIndex abcd_split (Fin 13) True = Fin (13 / 25)"
  using invert_index [OF refl refl refl refl refl, of "ordinal0 :: (string, jsnum) ordinal" "Fin 7" False 0 0 0]
    invert_index [OF refl refl refl refl refl, of "abcd\<lparr>range_r := new_range [Fin 5, Fin 5, Fin 5, Fin 5]
        \<lparr>r_min := Num (Fin 5), r_max := Num (Fin 5)\<rparr>\<rparr>" "Fin 7" False 0 0 0]
    invert_index [OF refl refl refl refl refl, of abcd_split "Fin 100" False 0 100 100]
    invert_index [OF refl refl refl refl refl, of abcd_split "Fin (- 5)" False 0 100 "- 5"]
    invert_index [OF refl refl refl refl refl, of abcd_split "Fin 0" False 0 100 0]
    invert_index [OF refl refl refl refl refl, of abcd_split "Fin 12" False 0 100 12]
    invert_index [OF refl refl refl refl refl, of abcd_split "Fin 99" False 0 100 99]
    invert_index [OF refl refl refl refl refl, of abcd_split "Fin 13" False 0 100 13]
  by (simp add: abcd_domain abcd_split_def ordinal0_def new_range_def js_sub_def js_seq_def
      js_ge_def round_def)

subsection \<open>Domain and index\<close>

lemma js_in_update: "js_in k (seen(k0 \<mapsto> v)) = (k = k0 \<or> js_in k seen)"
  by (auto simp add: js_in_def)

lemma js_in_empty: "js_in k Map.empty = (k \<in> set Object_prototype_keys)"
  by (simp add: js_in_def)

lemma first_seen_subset: "set (first_seen key xs) \<subseteq> set xs"
  by (induction key xs rule: first_seen.induct) auto

lemma first_seen_distinct: "distinct (map key (first_seen key xs))"
proof (induction key xs rule: first_seen.induct)
  case (1 key)
  show ?case by simp
next
  case (2 key x xs)
  have "key x \<notin> key ` set (first_seen key (filter (\<lambda>y. key y \<noteq> key x) xs))"
    using first_seen_subset[of key "filter (\<lambda>y. key y \<noteq> key x) xs"] by auto
  with 2 show ?case by simp
qed

text \<open>The loop of the source computes the order of first occurrence of the values that
  are neither seen already nor named like an inherited property.\<close>

lemma unique_loop_first_seen:
  "unique_loop key seen d array = d @ first_seen key (filter (\<lambda>v. \<not> js_in (key v) seen) array)"
proof (induction array arbitrary: seen d)
  case Nil
  show ?case by simp
next
  case (Cons o1 array)
  show ?case
  proof (cases "js_in (key o1) seen")
    case True
    then show ?thesis by (simp add: Cons.IH)
  next
    case False
    have flt: "filter (\<lambda>v. \<not> js_in (key v) (seen(key o1 \<mapsto> True))) array
            = filter (\<lambda>y. key y \<noteq> key o1) (filter (\<lambda>v. \<not> js_in (key v) seen) array)"
      by (simp add: js_in_update conj_commute)
    have "unique_loop key seen d (o1 # array)
            = unique_loop key (seen(key o1 \<mapsto> True)) (d @ [o1]) array"
      using False by simp
    also have "\<dots> = (d @ [o1]) @
        first_seen key (filter (\<lambda>v. \<not> js_in (key v) (seen(key o1 \<mapsto> True))) array)"
      by (rule Cons.IH)
    also have "\<dots> = d @ first_seen key (filter (\<lambda>v. \<not> js_in (key v) seen) (o1 # array))"
      using False by (simp only: flt) simp
    finally show ?thesis .
  qed
qed

lemma scale_domain_set:
  assumes "args = Array xs \<or> (args = Values xs \<and> xs \<noteq> []) \<or> (args = ArrayBy us f \<and> xs = map f us)"
  shows "domain_d (scale_domain key st args)
           = first_seen key (filter (\<lambda>v. key v \<notin> set Object_prototype_keys) xs)"
    and "index_i (scale_domain key st args) = pv_numerate key (domain_d (scale_domain key st args))"
    and "range_r (scale_domain key st args) = range_r st"
  using assms
  by (auto simp add: scale_domain_def unique_loop_first_seen js_in_empty pv_map_def Let_def
      split: list.splits)

lemma scale_domain_Values:
  "xs \<noteq> [] \<Longrightarrow> domain_d (scale_domain key st (Values xs))
     = first_seen key (filter (\<lambda>v. key v \<notin> set Object_prototype_keys) xs)"
  by (rule scale_domain_set(1)) simp

lemma scale_domain_Array:
  "domain_d (scale_domain key st (Array xs))
     = first_seen key (filter (\<lambda>v. key v \<notin> set Object_prototype_keys) xs)"
  by (rule scale_domain_set(1)) simp

lemma pv_numerate_dom: "dom (pv_numerate key d) = key ` set d"
  by (simp add: pv_numerate_def)

lemma pv_numerate_nth:
  assumes "distinct (map key d)" and "n < length d"
  shows "pv_numerate key d (key (d ! n)) = Some n"
  using map_of_zip_nth[of "map key d" "[0..<length d]" n] assms
  by (simp add: pv_numerate_def)

lemma pv_numerate_snoc:
  assumes "key x \<notin> key ` set d"
  shows "pv_numerate key (d @ [x]) = (pv_numerate key d)(key x \<mapsto> length d)"
proof
  fix k
  define m where "m = pv_numerate key d"
  have none: "m (key x) = None"
    using assms pv_numerate_dom[of key d] unfolding m_def by (metis domIff)
  have "pv_numerate key (d @ [x])
          = map_of (zip (map key d) [0..<length d] @ [(key x, length d)])"
    by (simp add: pv_numerate_def)
  also have "\<dots> = map_of [(key x, length d)] ++ map_of (zip (map key d) [0..<length d])"
    by (rule map_of_append)
  also have "\<dots> = map_of [(key x, length d)] ++ m"
    by (simp only: m_def pv_numerate_def)
  finally have eq: "pv_numerate key (d @ [x]) = map_of [(key x, length d)] ++ m" .
  show "pv_numerate key (d @ [x]) k = ((pv_numerate key d)(key x \<mapsto> length d)) k"
  proof (cases "k = key x")
    case True
    then show ?thesis using none by (simp add: eq m_def[symmetric] map_add_def)
  next
    case False
    then show ?thesis by (simp add: eq m_def[symmetric] map_add_def split: option.splits)
  qed
qed

text \<open>Every call keeps the invariant, and the constructor establishes it.\<close>

lemma numbered_domain_scale_domain:
  assumes "numbered_domain key st"
  shows "numbered_domain key (scale_domain key st args)"
proof (cases "args = Values []")
  case True
  then show ?thesis using assms by (simp add: scale_domain_def)
next
  case False
  then obtain xs where "args = Array xs \<or> (args = Values xs \<and> xs \<noteq> []) \<or> (\<exists>us f. args = ArrayBy us f \<and> xs = map f us)"
    by (cases args) auto
  then show ?thesis
    using scale_domain_set(1,2)[of args xs _ _ key st]
    by (auto simp add: numbered_domain_def first_seen_distinct)
qed

lemma scale_state:
  assumes "numbered_domain key st"
  shows "fst (scale key st x) =
     (if key x \<in> key ` set (domain_d st) \<or> key x \<in> set Object_prototype_keys then st
      else st\<lparr>index_i := (index_i st)(key x \<mapsto> length (domain_d st)),
              domain_d := domain_d st @ [x]\<rparr>)"
  using assms pv_numerate_dom[of key "domain_d st"]
  by (simp add: scale_def js_in_def numbered_domain_def Let_def)

lemma numbered_domain_scale:
  assumes "numbered_domain key st"
  shows "numbered_domain key (fst (scale key st x))"
  using assms by (auto simp add: scale_state numbered_domain_def pv_numerate_snoc)

lemma numbered_domain_step:
  assumes "numbered_domain key st"
  shows "numbered_domain key (call_step key st c)"
proof (cases c)
  case (Domain args)
  then show ?thesis using assms by (simp add: numbered_domain_scale_domain)
next
  case (Invoke x)
  then show ?thesis using assms by (simp add: numbered_domain_scale)
next
  case (SetRange r)
  then show ?thesis using assms by (simp add: numbered_domain_def)
qed

lemma numbered_domain_run:
  "numbered_domain key st \<Longrightarrow> numbered_domain key (run_calls key st calls)"
  unfolding run_calls_def
  by (induction calls arbitrary: st) (simp_all add: numbered_domain_step)

lemma numbered_domain_ordinal: "numbered_domain key (pv_Scale_ordinal key args)"
  unfolding pv_Scale_ordinal_def
  by (rule numbered_domain_scale_domain) (simp add: numbered_domain_def ordinal0_def pv_numerate_def)

text \<open>
  C5, with values told apart by their property names. After the constructor and any
  sequence of calls, the domain has no duplicates (no two of its values even share a
  property name) and the index maps every value of the domain to its position. The
  domain setter keeps the values in the order in which they are first seen and an
  invocation only appends, where values with the same property name count as the same
  value and the names inherited from \<^verbatim>\<open>Object.prototype\<close> are left out of the
  statement's example: seeding with \<open>[a, b, a, c]\<close>, three values with different
  property names, none of them inherited, yields the domain \<open>[a, b, c]\<close>.
\<close>

theorem domain_unique_ordered:
  fixes key :: "'v \<Rightarrow> string" and args :: "('u, 'v) domain_args"
    and calls :: "('u, 'v, 'r) call list" and st :: "('v, 'r) ordinal"
  assumes "st = run_calls key (pv_Scale_ordinal key args) calls"
  shows "distinct (domain_d st)
       \<and> distinct (map key (domain_d st))
       \<and> (\<forall>n < length (domain_d st). index_i st (key (domain_d st ! n)) = Some n)
       \<and> (xs \<noteq> [] \<longrightarrow> domain_d (scale_domain key st (Values xs :: ('u, 'v) domain_args))
             = first_seen key (filter (\<lambda>v. key v \<notin> set Object_prototype_keys) xs))
       \<and> domain_d (scale_domain key st (Array xs :: ('u, 'v) domain_args))
             = first_seen key (filter (\<lambda>v. key v \<notin> set Object_prototype_keys) xs)
       \<and> domain_d (fst (scale key st x))
             = (if key x \<in> key ` set (domain_d st) \<or> key x \<in> set Object_prototype_keys
                then domain_d st else domain_d st @ [x])
       \<and> (distinct [key a, key b, key c] \<and> key a \<notin> set Object_prototype_keys
            \<and> key b \<notin> set Object_prototype_keys \<and> key c \<notin> set Object_prototype_keys \<longrightarrow>
            domain_d (pv_Scale_ordinal key (Values [a, b, a, c] :: ('u, 'v) domain_args) :: ('v, 'r) ordinal)
              = [a, b, c])"
proof -
  have inv: "numbered_domain key st"
    unfolding assms by (rule numbered_domain_run) (rule numbered_domain_ordinal)
  then have dk: "distinct (map key (domain_d st))"
    and idx: "index_i st = pv_numerate key (domain_d st)"
    by (simp_all add: numbered_domain_def)
  have "distinct (domain_d st)" using dk by (simp add: distinct_map)
  moreover have "\<forall>n < length (domain_d st). index_i st (key (domain_d st ! n)) = Some n"
    using dk by (simp add: idx pv_numerate_nth)
  moreover have "xs \<noteq> [] \<longrightarrow> domain_d (scale_domain key st (Values xs :: ('u, 'v) domain_args))
             = first_seen key (filter (\<lambda>v. key v \<notin> set Object_prototype_keys) xs)"
    by (simp add: scale_domain_Values)
  moreover have "domain_d (scale_domain key st (Array xs :: ('u, 'v) domain_args))
             = first_seen key (filter (\<lambda>v. key v \<notin> set Object_prototype_keys) xs)"
    by (simp add: scale_domain_Array)
  moreover have "domain_d (fst (scale key st x))
             = (if key x \<in> key ` set (domain_d st) \<or> key x \<in> set Object_prototype_keys
                then domain_d st else domain_d st @ [x])"
    by (simp add: scale_state[OF inv])
  moreover have "distinct [key a, key b, key c] \<and> key a \<notin> set Object_prototype_keys
            \<and> key b \<notin> set Object_prototype_keys \<and> key c \<notin> set Object_prototype_keys \<longrightarrow>
            domain_d (pv_Scale_ordinal key (Values [a, b, a, c] :: ('u, 'v) domain_args) :: ('v, 'r) ordinal)
              = [a, b, c]"
    by (auto simp add: pv_Scale_ordinal_def scale_domain_Values)
  ultimately show ?thesis using dk by blast
qed

theorem domain_unique_ordered_witness:
  "domain_d (pv_Scale_ordinal StringKey (Values [''a'', ''b'', ''a'', ''c''] :: (string, string) domain_args)
       :: (string, jsnum) ordinal) = [''a'', ''b'', ''c'']
   \<and> domain_d (scale_domain StringKey abc_run (Values [''x'', ''y'', ''x''] :: (string, string) domain_args))
       = [''x'', ''y'']
   \<and> domain_d (fst (scale StringKey abc_run ''e'')) = domain_d abc_run @ [''e'']
   \<and> domain_d abc_run = [''a'', ''b'', ''c'', ''d'']
   \<and> index_i abc_run ''d'' = Some 3"
proof -
  note t = domain_unique_ordered [OF abc_run_def, of "[''x'', ''y'', ''x'']" "''e''" "''a''" "''b''" "''c''"]
  have "index_i abc_run (StringKey (domain_d abc_run ! 3)) = Some 3"
    using t [THEN conjunct2, THEN conjunct2, THEN conjunct1, rule_format, of 3]
    by (simp add: abc_run_domain)
  then have "index_i abc_run ''d'' = Some 3"
    by (simp add: abc_run_domain StringKey_def)
  then show ?thesis
    using t abc_run_domain by (simp add: Object_prototype_keys_def StringKey_def)
qed

text \<open>
  The statement as the specification words it fails where two different values have the
  same property name: the domain seeded with \<open>true\<close>, \<open>"true"\<close>, \<open>true\<close>, \<open>"x"\<close> is \<open>[true, "x"]\<close>.
\<close>

theorem domain_unique_ordered_counterexample:
  "domain_d (pv_Scale_ordinal ToPropertyKey
      (Values [PBoolean True, PString ''true'', PBoolean True, PString ''x''] :: (prim, prim) domain_args)
      :: (prim, jsnum) ordinal)
     = [PBoolean True, PString ''x'']
   \<and> distinct [PBoolean True, PString ''true'', PString ''x'']"
  by (simp add: pv_Scale_ordinal_def scale_domain_def ordinal0_def js_in_def
      Object_prototype_keys_def Let_def)

text \<open>
  C4, with values told apart by their property names and for a value whose property
  name is not inherited from \<^verbatim>\<open>Object.prototype\<close>. In every state reached by the
  constructor and a sequence of calls, with a range of length \<open>L > 0\<close>: the invocation
  returns the range's element at \<open>index[x] mod L\<close>, an element that exists however long
  the domain is; if no value of the domain has the property name of \<open>x\<close>, then \<open>x\<close> is
  first appended to the domain with the next free index; otherwise the state does not
  change.
\<close>

theorem scale_invocation:
  fixes key :: "'v \<Rightarrow> string" and args :: "('u, 'v) domain_args"
    and calls :: "('u, 'v, 'r) call list" and st :: "('v, 'r) ordinal"
  assumes "st = run_calls key (pv_Scale_ordinal key args) calls"
    and "0 < length (elems (range_r st))"
    and "key x \<notin> set Object_prototype_keys"
    and "scale key st x = (st', res)"
  shows "(\<exists>n. index_i st' (key x) = Some n
            \<and> res = Some (elems (range_r st) ! (n mod length (elems (range_r st))))
            \<and> n mod length (elems (range_r st)) < length (elems (range_r st)))
       \<and> (key x \<notin> key ` set (domain_d st) \<longrightarrow>
            domain_d st' = domain_d st @ [x]
            \<and> index_i st' = (index_i st)(key x \<mapsto> length (domain_d st)))
       \<and> (key x \<in> key ` set (domain_d st) \<longrightarrow> st' = st)
       \<and> range_r st' = range_r st"
proof -
  have inv: "numbered_domain key st"
    unfolding assms(1) by (rule numbered_domain_run) (rule numbered_domain_ordinal)
  have st': "st' = fst (scale key st x)" and res: "res = snd (scale key st x)"
    using assms(4) by simp_all
  have dom: "dom (index_i st) = key ` set (domain_d st)"
    using inv by (simp add: numbered_domain_def pv_numerate_dom)
  show ?thesis
  proof (cases "key x \<in> key ` set (domain_d st)")
    case True
    then obtain n where n: "index_i st (key x) = Some n" using dom by blast
    have "st' = st" using True inv by (simp add: st' scale_state)
    moreover have "res = Some (elems (range_r st) ! (n mod length (elems (range_r st))))"
      using True dom n assms(2) by (simp add: res scale_def js_in_def Let_def)
    ultimately show ?thesis using True n assms(2) by simp
  next
    case False
    have "st' = st\<lparr>index_i := (index_i st)(key x \<mapsto> length (domain_d st)),
                   domain_d := domain_d st @ [x]\<rparr>"
      using False inv assms(3) by (simp add: st' scale_state)
    moreover have "res = Some (elems (range_r st) !
                       (length (domain_d st) mod length (elems (range_r st))))"
      using False dom assms(2,3) by (simp add: res scale_def js_in_def Let_def)
    ultimately show ?thesis using False assms(2) by simp
  qed
qed

theorem scale_invocation_witness:
  "scale StringKey ab_ranged ''c''
     = (ab_ranged\<lparr>index_i := (index_i ab)(''c'' \<mapsto> 2), domain_d := [''a'', ''b'', ''c'']\<rparr>,
        Some (Fin 10))
   \<and> scale StringKey ab_ranged ''b'' = (ab_ranged, Some (Fin 20))"
proof -
  have len: "0 < length (elems (range_r ab_ranged))"
    by (simp add: ab_ranged new_range_def)
  have c: "StringKey ''c'' \<notin> set Object_prototype_keys"
    and b: "StringKey ''b'' \<notin> set Object_prototype_keys"
    by (simp_all add: Object_prototype_keys_def StringKey_def)
  have 1: "scale StringKey ab_ranged ''c''
     = (ab_ranged\<lparr>index_i := (index_i ab)(''c'' \<mapsto> 2), domain_d := [''a'', ''b'', ''c'']\<rparr>,
        Some (Fin 10))"
    using c by (simp add: scale_def js_in_def ab_ranged ab_domain ab_index new_range_def Let_def
        numeral_2_eq_2 StringKey_def)
  have 2: "scale StringKey ab_ranged ''b'' = (ab_ranged, Some (Fin 20))"
    using b by (simp add: scale_def js_in_def ab_ranged ab_domain ab_index new_range_def Let_def
        StringKey_def)
  show ?thesis
    using scale_invocation [OF ab_ranged_def len c 1] scale_invocation [OF ab_ranged_def len b 2] 1 2
    by simp
qed

text \<open>
  The statement as the specification words it fails for a value that is not in the domain
  while its property name is: with the domain \<open>["true"]\<close>, invoking the scale on the
  boolean \<open>true\<close> does not append it and returns the first element of the range.
\<close>

theorem scale_invocation_counterexample:
  "PBoolean True \<notin> set (domain_d true_scale)
   \<and> scale ToPropertyKey true_scale (PBoolean True) = (true_scale, Some (Fin 10))
   \<and> domain_d true_scale = [PString ''true'']"
  by (simp add: true_scale_def run_calls_def pv_Scale_ordinal_def scale_domain_def ordinal0_def
      js_in_def Object_prototype_keys_def Let_def scale_def pv_numerate_def new_range_def)

text \<open>
  A value named like a property that every object inherits is never added, neither by
  the domain setter nor by an invocation, which then returns \<^verbatim>\<open>undefined\<close>.
\<close>

lemma inherited_name_never_added:
  "domain_d (pv_Scale_ordinal StringKey
      (Values [''constructor'', ''b'', ''constructor'', ''c''] :: (string, string) domain_args)
      :: (string, jsnum) ordinal) = [''b'', ''c'']"
  "scale StringKey ab_ranged ''constructor'' = (ab_ranged, None)"
  by (simp_all add: pv_Scale_ordinal_def scale_domain_def ordinal0_def js_in_def
      Object_prototype_keys_def Let_def scale_def ab_ranged ab_def pv_numerate_def StringKey_def)

end
